theory Spec2Isabelle
  imports Complex_Main "HOL-Library.AList"
begin

section \<open>The HHL pipeline of qiskit.aqua: circuit assembly and result extraction\<close>

text \<open>
  A shallow embedding of \<^verbatim>\<open>qiskit/aqua/algorithms/single_sample/hhl/hhl.py\<close>.
  Python exceptions are values of the type \<open>error\<close>; a function that may raise returns
  \<open>error + 'a\<close>, with \<open>Inl\<close> for the exception. numpy's float64 and complex128 numbers are
  idealised as the reals and the complex numbers of HOL, except in the test of line 138,
  which the rounding to float64 decides and where it is modelled; a division by zero, which numpy
  carries out with a warning and a nan or inf result, is a separate value of the model
  (see \<open>np\<close> and \<open>npvec\<close> below), never an exception and never HOL's \<open>x / 0 = 0\<close>.
\<close>

subsection \<open>Exceptions\<close>

datatype error =
    AquaError string
  | ValueError string
  | IndexError
  | TypeError
  | KeyError
  | AttributeError
  | ZeroDivisionError
  | LinAlgError

text \<open>Sequencing: the first exception ends the computation.\<close>

definition ebind :: "error + 'a \<Rightarrow> ('a \<Rightarrow> error + 'b) \<Rightarrow> error + 'b" where
  "ebind m f = (case m of Inl e \<Rightarrow> Inl e | Inr x \<Rightarrow> f x)"

fun mapM :: "('a \<Rightarrow> error + 'b) \<Rightarrow> 'a list \<Rightarrow> error + 'b list" where
  "mapM f [] = Inr []"
| "mapM f (x # xs) = ebind (f x) (\<lambda>y. ebind (mapM f xs) (\<lambda>ys. Inr (y # ys)))"

subsection \<open>Python strings, indices and dictionaries\<close>

text \<open>\<^verbatim>\<open>k[i]\<close>: a negative index counts from the end; out of range raises IndexError.\<close>

definition py_index :: "'a list \<Rightarrow> int \<Rightarrow> error + 'a" where
  "py_index xs i =
     (if 0 \<le> i \<and> i < int (length xs) then Inr (xs ! nat i)
      else if i < 0 \<and> - int (length xs) \<le> i then Inr (xs ! nat (int (length xs) + i))
      else Inl IndexError)"

text \<open>\<^verbatim>\<open>k[:e]\<close>: a slice never raises; a negative end counts from the end.\<close>

definition py_slice_to :: "'a list \<Rightarrow> int \<Rightarrow> 'a list" where
  "py_slice_to xs e = (if e < 0 then take (nat (int (length xs) + e)) xs else take (nat e) xs)"

definition is_digit :: "char \<Rightarrow> bool" where
  "is_digit c = (c \<in> set ''0123456789'')"

text \<open>\<^verbatim>\<open>int(c)\<close> of a one-character string: the digit's value, ValueError otherwise.\<close>

definition py_int_char :: "char \<Rightarrow> error + int" where
  "py_int_char c = (if is_digit c then Inr (int (of_char c) - 48) else Inl (ValueError ''invalid literal for int()''))"

text \<open>
  A Python dict is an association list with distinct keys, in insertion order.
  \<^verbatim>\<open>dict(zip(keys, values))\<close> inserts the pairs from left to right; a key that is already
  present keeps its place and takes the later value.
\<close>

type_synonym counts = "(string \<times> int) list"

definition dict_of_pairs :: "('k \<times> 'v) list \<Rightarrow> ('k \<times> 'v) list" where
  "dict_of_pairs ps = foldl (\<lambda>d (k, v). AList.update k v d) [] ps"

definition total :: "counts \<Rightarrow> int" where
  "total d = sum_list (map snd d)"

subsection \<open>Input validation: \<^verbatim>\<open>HHL.init_params\<close>, lines 135 to 141\<close>

type_synonym cvec = "complex list"
type_synonym cmat = "complex list list"

text \<open>
  A matrix is the list of its rows, so \<^verbatim>\<open>matrix.shape[0]\<close> is the length of the list.

  Line 138 computes \<^verbatim>\<open>np.log2(matrix.shape[0]) % 1 != 0\<close> in float64, and the rounding
  decides the test for large dimensions, so it is part of the model. \<open>f64 x\<close> is the
  float64 nearest to \<open>x\<close>, ties to the even significand: 53 significant bits, for the
  magnitudes that occur here (no overflow, no subnormal numbers). \<^verbatim>\<open>np.log2\<close> converts
  the dimension to float64 and returns a float64; it is taken to be correctly rounded.
\<close>

definition round_even :: "real \<Rightarrow> int" where
  "round_even y =
     (let f = \<lfloor>y\<rfloor> in
      if y - of_int f < 1 / 2 then f
      else if 1 / 2 < y - of_int f then f + 1
      else if even f then f else f + 1)"

definition f64 :: "real \<Rightarrow> real" where
  "f64 x = (if x = 0 then 0
            else let u = 2 powi (\<lfloor>log 2 \<bar>x\<bar>\<rfloor> - 52) in of_int (round_even (x / u)) * u)"

definition np_log2 :: "nat \<Rightarrow> real" where
  "np_log2 n = f64 (log 2 (f64 (real n)))"

text \<open>
  \<open>np.log2 0\<close> is \<open>-inf\<close>, whose remainder is nan, and \<open>nan != 0\<close> holds; for
  \<open>n > 0\<close> the remainder modulo 1 of a float64 is exact, and is its fractional part.
\<close>

definition log2_mod1_nonzero :: "nat \<Rightarrow> bool" where
  "log2_mod1_nonzero n = (if n = 0 then True else frac (np_log2 n) \<noteq> 0)"

definition check_dimensions :: "cmat \<Rightarrow> cvec \<Rightarrow> error + unit" where
  "check_dimensions matrix vector =
     (if length matrix \<noteq> length vector
      then Inl (ValueError ''Input vector dimension does not match input matrix dimension!'')
      else if log2_mod1_nonzero (length matrix)
      then Inl (ValueError ''Matrix dimension must be 2**n!'')
      else Inr ())"

subsection \<open>Post-selection of tomography counts: \<^verbatim>\<open>HHL._tomo_postselect\<close>, lines 266 to 281\<close>

datatype creg = ClassicalRegister (creg_size: nat) (creg_name: string)
datatype qreg = QuantumRegister (qreg_size: nat) (qreg_name: string)

text \<open>
  Lines 266 to 269: the position of the selected classical bit is the index of the last
  label of the result header whose register name is \<^verbatim>\<open>select.name\<close>; it stays
  \<^verbatim>\<open>None\<close> when no label matches. \<^verbatim>\<open>select.name\<close> is read once for every label.
\<close>

fun find_bitpos :: "creg option \<Rightarrow> (string \<times> int) list \<Rightarrow> int option \<Rightarrow> error + int option" where
  "find_bitpos select [] acc = Inr acc"
| "find_bitpos select ((n, i) # ls) acc =
     (case select of
        None \<Rightarrow> Inl AttributeError
      | Some c \<Rightarrow> find_bitpos select ls (if n = creg_name c then Some i else acc))"

text \<open>
  Lines 271 to 276: the loop over \<^verbatim>\<open>all_counts.items()\<close>. A key is kept when
  \<^verbatim>\<open>int(k[-1-select_bitpos]) == 1\<close>, and is stored as \<^verbatim>\<open>k[:select_bitpos-2]\<close>.
  The result is the list of pairs \<^verbatim>\<open>zip(filt_keys, filt_counts)\<close>.
\<close>

fun filter_pairs :: "int option \<Rightarrow> counts \<Rightarrow> error + counts" where
  "filter_pairs p [] = Inr []"
| "filter_pairs p ((k, v) # rest) =
     (case p of
        None \<Rightarrow> Inl TypeError
      | Some b \<Rightarrow>
          ebind (py_index k (- 1 - b)) (\<lambda>c.
          ebind (py_int_char c) (\<lambda>d.
          ebind (filter_pairs p rest) (\<lambda>ps.
          Inr (if d = 1 then (py_slice_to k (b - 2), v) # ps else ps)))))"

text \<open>Lines 277 to 279: the filtered dict, replaced by \<^verbatim>\<open>{'0': 0}\<close> when it is empty.\<close>

definition filt_labels :: "int option \<Rightarrow> counts \<Rightarrow> error + counts" where
  "filt_labels p all_counts =
     ebind (filter_pairs p all_counts) (\<lambda>ps.
       let d = dict_of_pairs ps in Inr (if d = [] then [(''0'', 0)] else d))"

text \<open>
  \<^verbatim>\<open>tomo.marginal_counts\<close> of qiskit (\<^verbatim>\<open>qiskit.tools.qcvv.tomography\<close>), a library
  routine outside this repository, as the library implements it: the number of bits is the
  length of the first key; the measured qubits are sorted in descending order; for every
  bit string over the measured qubits, in counting order, a pattern is built that has the
  string's bit at the place of each measured qubit and \<^verbatim>\<open>\d\<close> elsewhere (qubit 0 is
  the last character); its count is the sum of the counts whose key the pattern matches
  (\<^verbatim>\<open>re.match\<close>, anchored at the start of the key only).
\<close>

fun bitstrings :: "nat \<Rightarrow> string list" where
  "bitstrings 0 = [[]]"
| "bitstrings (Suc n) = map ((#) CHR ''0'') (bitstrings n) @ map ((#) CHR ''1'') (bitstrings n)"

text \<open>\<^verbatim>\<open>count_keys(n)\<close> is \<^verbatim>\<open>[bin(j)[2:].zfill(n) for j in range(2**n)]\<close>; for \<open>n = 0\<close> this is \<^verbatim>\<open>['0']\<close>.\<close>

definition count_keys :: "nat \<Rightarrow> string list" where
  "count_keys n = (if n = 0 then [''0''] else bitstrings n)"

datatype pat = Lit char | AnyDigit

fun re_match :: "pat list \<Rightarrow> string \<Rightarrow> bool" where
  "re_match [] k = True"
| "re_match (p # ps) [] = False"
| "re_match (Lit c # ps) (x # xs) = (c = x \<and> re_match ps xs)"
| "re_match (AnyDigit # ps) (x # xs) = (is_digit x \<and> re_match ps xs)"

fun index_of :: "'a list \<Rightarrow> 'a \<Rightarrow> nat" where
  "index_of [] y = 0"
| "index_of (x # xs) y = (if x = y then 0 else Suc (index_of xs y))"

definition rgx_of :: "nat \<Rightarrow> nat list \<Rightarrow> string \<Rightarrow> pat list" where
  "rgx_of num_of_qubits qs key =
     rev (map (\<lambda>y. if y \<in> set qs then Lit (key ! index_of qs y) else AnyDigit) [0..<num_of_qubits])"

definition marginal_counts :: "counts \<Rightarrow> nat list \<Rightarrow> error + counts" where
  "marginal_counts cs meas_qubits =
     (case cs of
        [] \<Rightarrow> Inl IndexError
      | (k0, _) # _ \<Rightarrow>
          let num_of_qubits = length k0;
              qs = rev (sort meas_qubits);
              meas_keys = count_keys (length qs)
          in Inr (dict_of_pairs
                (map (\<lambda>key. (key, sum_list (map snd
                        (filter (\<lambda>(k, v). re_match (rgx_of num_of_qubits qs key) k) cs))))
                   meas_keys)))"

text \<open>
  Lines 266 to 281 for one tomography circuit: the marginal counts that are stored for
  it, and their sum \<^verbatim>\<open>shots\<close>.
\<close>

definition postselect_counts ::
  "creg option \<Rightarrow> (string \<times> int) list \<Rightarrow> counts \<Rightarrow> nat list \<Rightarrow> error + counts" where
  "postselect_counts select clbit_labels all_counts qubits =
     ebind (find_bitpos select clbit_labels None) (\<lambda>select_bitpos.
     ebind (filt_labels select_bitpos all_counts) (\<lambda>fl.
     marginal_counts fl qubits))"


subsection \<open>numpy values\<close>

text \<open>
  \<open>Fin x\<close> and \<open>Vec xs\<close> are exact numbers. \<open>NonFin\<close> and \<open>NanVec n\<close> (an array of
  length \<open>n\<close>) stand for a result into which a nan or an inf has entered through a division
  by zero; numpy raises nothing there. For the arrays and numbers the program stores, the
  mark means that at least one entry is nan or inf: a nan or inf entry stays nan or inf
  under the products and sums below. Which of the two it is, is not tracked.
\<close>

datatype 'a np = Fin 'a | NonFin

datatype npvec = Vec cvec | NanVec nat

fun np_len :: "npvec \<Rightarrow> nat" where
  "np_len (Vec xs) = length xs"
| "np_len (NanVec n) = n"

text \<open>\<^verbatim>\<open>xs / d\<close> for an array and a scalar.\<close>

definition vec_div :: "cvec \<Rightarrow> complex \<Rightarrow> npvec" where
  "vec_div xs d = (if d = 0 \<and> xs \<noteq> [] then NanVec (length xs) else Vec (map (\<lambda>x. x / d) xs))"

text \<open>\<^verbatim>\<open>np.linalg.norm\<close> of a one-dimensional array.\<close>

definition l2norm :: "cvec \<Rightarrow> real" where
  "l2norm xs = sqrt (sum_list (map (\<lambda>z. (cmod z)\<^sup>2) xs))"

fun np_norm :: "npvec \<Rightarrow> real np" where
  "np_norm (Vec xs) = Fin (l2norm xs)"
| "np_norm (NanVec n) = NonFin"

fun np_conj :: "npvec \<Rightarrow> npvec" where
  "np_conj (Vec xs) = Vec (map cnj xs)"
| "np_conj (NanVec n) = NanVec n"

text \<open>The sum of the products of the entries: \<^verbatim>\<open>a.dot(b)\<close> conjugates neither side.\<close>

definition vdot :: "cvec \<Rightarrow> cvec \<Rightarrow> complex" where
  "vdot xs ys = sum_list (map (\<lambda>(x, y). x * y) (zip xs ys))"

text \<open>\<^verbatim>\<open>a.dot(b)\<close> of two one-dimensional arrays raises ValueError when the lengths differ.\<close>

definition np_dot :: "npvec \<Rightarrow> npvec \<Rightarrow> error + complex np" where
  "np_dot a b =
     (if np_len a \<noteq> np_len b then Inl (ValueError ''shapes not aligned'')
      else Inr (case (a, b) of (Vec xs, Vec ys) \<Rightarrow> Fin (vdot xs ys) | _ \<Rightarrow> NonFin))"

text \<open>
  \<^verbatim>\<open>matrix.dot(vec)\<close>: every row has to be as long as \<open>vec\<close>. (A matrix without rows
  has lost its number of columns in this representation and is accepted.)
\<close>

definition mat_dot :: "cmat \<Rightarrow> npvec \<Rightarrow> error + npvec" where
  "mat_dot A v =
     (if list_all (\<lambda>r. length r = np_len v) A
      then Inr (case v of
                  Vec xs \<Rightarrow> Vec (map (\<lambda>r. vdot r xs) A)
                | NanVec n \<Rightarrow> if A = [] then Vec [] else NanVec (length A))
      else Inl (ValueError ''shapes not aligned''))"

text \<open>\<^verbatim>\<open>a * b\<close>, entry by entry, with numpy's broadcasting of an array of length one.\<close>

definition np_mul :: "cvec \<Rightarrow> npvec \<Rightarrow> error + npvec" where
  "np_mul a b =
     (if length a = np_len b then
        Inr (case b of Vec ys \<Rightarrow> Vec (map (\<lambda>(x, y). x * y) (zip a ys))
                     | NanVec n \<Rightarrow> if n = 0 then Vec [] else NanVec n)
      else if length a = 1 then
        Inr (case b of Vec ys \<Rightarrow> Vec (map (\<lambda>y. hd a * y) ys)
                     | NanVec n \<Rightarrow> if n = 0 then Vec [] else NanVec n)
      else if np_len b = 1 then
        Inr (case b of Vec ys \<Rightarrow> Vec (map (\<lambda>x. x * hd ys) a)
                     | NanVec n \<Rightarrow> if a = [] then Vec [] else NanVec (length a))
      else Inl (ValueError ''operands could not be broadcast together''))"

fun np_abs_sq :: "complex np \<Rightarrow> real np" where
  "np_abs_sq (Fin z) = Fin ((cmod z)\<^sup>2)"
| "np_abs_sq NonFin = NonFin"

text \<open>\<^verbatim>\<open>a / d\<close> for two float scalars of numpy.\<close>

fun np_rdiv :: "real \<Rightarrow> real np \<Rightarrow> real np" where
  "np_rdiv a (Fin d) = (if d = 0 then NonFin else Fin (a / d))"
| "np_rdiv a NonFin = NonFin"

text \<open>
  \<^verbatim>\<open>sum(np.angle(p - 1 + 1)) / num_q\<close>. Python's \<^verbatim>\<open>sum\<close> of an empty array is the
  integer 0, and dividing it by the integer 0 raises; the sum of a non-empty array is a
  numpy float, whose division by 0 gives nan or inf. \<^verbatim>\<open>np.angle\<close> is the argument in
  \<open>(-\<pi>, \<pi>]\<close>, 0 at 0.
\<close>

definition angle_mean :: "npvec \<Rightarrow> nat \<Rightarrow> error + real np" where
  "angle_mean p n =
     (if np_len p = 0 then (if n = 0 then Inl ZeroDivisionError else Inr (Fin 0))
      else Inr (case p of
                  Vec zs \<Rightarrow> if n = 0 then NonFin
                             else Fin (sum_list (map (\<lambda>z. Arg (z - 1 + 1)) zs) / real n)
                | NanVec _ \<Rightarrow> NonFin))"

text \<open>\<^verbatim>\<open>f1*vec*np.exp(-1j*f2)\<close>.\<close>

definition np_scale :: "real np \<Rightarrow> real np \<Rightarrow> npvec \<Rightarrow> npvec" where
  "np_scale f1 f2 vec =
     (case vec of
        NanVec n \<Rightarrow> NanVec n
      | Vec xs \<Rightarrow>
          (case (f1, f2) of
             (Fin a, Fin ph) \<Rightarrow>
                Vec (map (\<lambda>x. complex_of_real a * x * exp (- \<i> * complex_of_real ph)) xs)
           | _ \<Rightarrow> if xs = [] then Vec [] else NanVec (length xs)))"

subsection \<open>Circuits and the pluggable components\<close>

text \<open>
  A circuit is its registers and its list of instructions. What the three pluggable
  components build is opaque here: a \<open>Block\<close> names a component's gates.
\<close>

datatype instr = Block string | Measure qreg creg

record circuit =
  circ_name :: string
  qregs :: "qreg list"
  cregs :: "creg list"
  gates :: "instr list"

definition add_new :: "'a list \<Rightarrow> 'a list \<Rightarrow> 'a list" where
  "add_new rs new = foldl (\<lambda>acc r. if r \<in> set acc then acc else acc @ [r]) rs new"

text \<open>\<^verbatim>\<open>qc += rhs\<close>: the registers of \<open>rhs\<close> that \<open>qc\<close> lacks are added, the gates appended.\<close>

definition circuit_extend :: "circuit \<Rightarrow> circuit \<Rightarrow> circuit" where
  "circuit_extend qc rhs =
     qc\<lparr>qregs := add_new (qregs qc) (qregs rhs),
        cregs := add_new (cregs qc) (cregs rhs),
        gates := gates qc @ gates rhs\<rparr>"

definition add_register :: "circuit \<Rightarrow> creg \<Rightarrow> circuit" where
  "add_register qc c = qc\<lparr>cregs := cregs qc @ [c]\<rparr>"

definition measure_op :: "circuit \<Rightarrow> qreg \<Rightarrow> creg \<Rightarrow> circuit" where
  "measure_op qc s c = qc\<lparr>gates := gates qc @ [Measure s c]\<rparr>"

record init_state_obj =
  init_construct_circuit :: "qreg \<Rightarrow> circuit"

record eigs_obj =
  get_register_sizes :: "nat \<times> nat"
  negative_evals :: bool
  evo_time :: real
  eigs_construct_circuit :: "qreg \<Rightarrow> circuit"
  eigs_circuit :: circuit
  eigs_input_register :: qreg
  eigs_output_register :: qreg
  eigs_construct_inverse :: "circuit \<Rightarrow> qreg \<Rightarrow> qreg \<Rightarrow> circuit"

record reciprocal_obj =
  reci_construct_circuit :: "qreg \<Rightarrow> circuit"
  reci_anc :: qreg
  sv_to_resvec :: "cvec \<Rightarrow> nat \<Rightarrow> cvec"

subsection \<open>The algorithm object and its result record\<close>

datatype prob = ProbScalar complex | ProbList "real list"

text \<open>The dict \<^verbatim>\<open>self._ret\<close>: a field is \<open>None\<close> while its key is absent.\<close>

record ret =
  probability_result :: "prob option"
  output_hhl :: "npvec option"
  fidelity_hhl_to_classical :: "real np option"
  solution_hhl :: "npvec option"
  input_matrix :: "cmat option"
  input_vector :: "cvec option"
  eigenvalues_classical :: "cvec option"
  solution_classical :: "cvec option"
  circuit_width :: "nat option"
  circuit_depth :: "nat option"
  gate_count_total :: "nat option"

definition empty_ret :: ret where
  "empty_ret = \<lparr>probability_result = None, output_hhl = None, fidelity_hhl_to_classical = None,
     solution_hhl = None, input_matrix = None, input_vector = None,
     eigenvalues_classical = None, solution_classical = None, circuit_width = None,
     circuit_depth = None, gate_count_total = None\<rparr>"

record hhl =
  matrix :: cmat
  vector :: cvec
  eigs :: eigs_obj
  init_state :: init_state_obj
  reciprocal :: reciprocal_obj
  num_q :: nat
  num_a :: nat
  circuit :: "circuit option"
  io_register :: "qreg option"
  eigenvalue_register :: "qreg option"
  ancilla_register :: "qreg option"
  success_bit :: "creg option"
  ret :: ret

text \<open>\<^verbatim>\<open>HHL.__init__\<close>, lines 103 to 115.\<close>

definition HHL ::
  "cmat \<Rightarrow> cvec \<Rightarrow> eigs_obj \<Rightarrow> init_state_obj \<Rightarrow> reciprocal_obj \<Rightarrow> nat \<Rightarrow> nat \<Rightarrow> hhl" where
  "HHL m v e i r nq na =
     \<lparr>matrix = m, vector = v, eigs = e, init_state = i, reciprocal = r, num_q = nq,
      num_a = na, circuit = None, io_register = None, eigenvalue_register = None,
      ancilla_register = None, success_bit = None, ret = empty_ret\<rparr>"

subsection \<open>The backend and the libraries\<close>

text \<open>
  What the execution backend, qiskit's tomography module and numpy's linear algebra
  answer during one run. They are outside this repository; the model takes their
  answers as given.
\<close>

record tomo_circ =
  tc_meas :: "(nat \<times> string) list"
  tc_prep :: "(nat \<times> string) list option"

record tomoset =
  ts_qubits :: "nat list"
  ts_circuits :: "tomo_circ list"
  ts_meas_basis :: string
  ts_prep_basis :: "string option"

record tomo_item =
  td_counts :: counts
  td_shots :: int
  td_circuit :: "(string \<times> (string \<times> int) list \<times> string list option) list"

record tomo_data =
  td_data :: "tomo_item list"
  td_meas_basis :: string
  td_prep_basis :: "string option"

record env =
  is_statevector :: bool
  get_statevector :: "circuit \<Rightarrow> cvec"
  get_counts :: "string \<Rightarrow> counts"
  result_clbit_labels :: "(string \<times> int) list list"
  fresh_circuit_name :: string
  success_creg_name :: string
  tomo_creg_name :: string
  state_tomography_set :: "nat list \<Rightarrow> tomoset"
  tomography_circuit_names :: "tomoset \<Rightarrow> string \<Rightarrow> string list"
  fit_tomography_data :: "tomo_data \<Rightarrow> cmat"
  linalg_solve :: "cmat \<Rightarrow> cvec \<Rightarrow> error + cvec"
  linalg_eig :: "cmat \<Rightarrow> error + cvec"
  dag_width :: "circuit \<Rightarrow> nat"
  dag_depth :: "circuit \<Rightarrow> nat"
  number_atomic_gates :: "circuit \<Rightarrow> nat"

subsection \<open>\<^verbatim>\<open>HHL.construct_circuit\<close>, lines 176 to 206\<close>

definition construct_circuit :: "env \<Rightarrow> bool \<Rightarrow> hhl \<Rightarrow> hhl" where
  "construct_circuit env measurement s =
     (let q = QuantumRegister (num_q s) ''io'';
          qc0 = \<lparr>circ_name = fresh_circuit_name env, qregs = [q], cregs = [], gates = []\<rparr>;
          qc1 = circuit_extend qc0 (init_construct_circuit (init_state s) q);
          qc2 = circuit_extend qc1 (eigs_construct_circuit (eigs s) q);
          a = eigs_output_register (eigs s);
          qc3 = circuit_extend qc2 (reci_construct_circuit (reciprocal s) a);
          anc = reci_anc (reciprocal s);
          qc4 = circuit_extend qc3
                  (eigs_construct_inverse (eigs s) (eigs_circuit (eigs s))
                     (eigs_input_register (eigs s)) (eigs_output_register (eigs s)));
          c = ClassicalRegister 1 (success_creg_name env);
          qc5 = (if measurement then measure_op (add_register qc4 c) anc c else qc4)
      in s\<lparr>success_bit := (if measurement then Some c else success_bit s),
           io_register := Some q,
           eigenvalue_register := Some a,
           ancilla_register := Some anc,
           circuit := Some qc5\<rparr>)"

subsection \<open>\<^verbatim>\<open>HHL._hhl_results\<close>, lines 302 to 311\<close>

definition hhl_results :: "env \<Rightarrow> hhl \<Rightarrow> npvec \<Rightarrow> error + hhl" where
  "hhl_results env s vec =
     ebind (linalg_solve env (matrix s) (vector s)) (\<lambda>x.
     let theo = vec_div x (complex_of_real (l2norm x)) in
     ebind (np_dot theo (np_conj vec)) (\<lambda>d.
     ebind (mat_dot (matrix s) vec) (\<lambda>tmp_vec.
     let f1 = np_rdiv (l2norm (vector s)) (np_norm tmp_vec) in
     ebind (np_mul (vector s) (np_conj tmp_vec)) (\<lambda>p.
     ebind (angle_mean p (num_q s)) (\<lambda>f2.
     Inr (s\<lparr>ret := (ret s)\<lparr>output_hhl := Some vec,
                             fidelity_hhl_to_classical := Some (np_abs_sq d),
                             solution_hhl := Some (np_scale f1 f2 vec)\<rparr>\<rparr>))))))"

subsection \<open>\<^verbatim>\<open>HHL._statevector_simulation\<close>, lines 215 to 221\<close>

definition statevector_simulation :: "env \<Rightarrow> hhl \<Rightarrow> error + hhl" where
  "statevector_simulation env s =
     (case circuit s of
        None \<Rightarrow> Inl AttributeError
      | Some qc \<Rightarrow>
          let sv = get_statevector env qc;
              vec = sv_to_resvec (reciprocal s) sv (num_q s);
              s1 = s\<lparr>ret := (ret s)\<lparr>probability_result := Some (ProbScalar (vdot vec (map cnj vec)))\<rparr>\<rparr>;
              vec' = vec_div vec (complex_of_real (l2norm vec))
          in hhl_results env s1 vec')"

subsection \<open>\<^verbatim>\<open>HHL._tomo_postselect\<close>, lines 261 to 299\<close>

definition lookup :: "('k \<times> 'v) list \<Rightarrow> 'k \<Rightarrow> error + 'v" where
  "lookup d k = (case map_of d k of None \<Rightarrow> Inl KeyError | Some v \<Rightarrow> Inr v)"

text \<open>Python's truth value of \<^verbatim>\<open>prep\<close>: neither \<^verbatim>\<open>None\<close> nor an empty dict.\<close>

definition truthy :: "'a list option \<Rightarrow> bool" where
  "truthy p = (case p of None \<Rightarrow> False | Some d \<Rightarrow> d \<noteq> [])"

text \<open>Lines 289 to 294: the annotation of one outcome \<open>c\<close>.\<close>

definition outcome_ann :: "tomo_circ \<Rightarrow> string \<Rightarrow> error + (string \<times> int) list \<times> string list option" where
  "outcome_ann tc c =
     (let meas = tc_meas tc; meas_qubits = sort (map fst meas) in
      ebind (mapM (\<lambda>k. ebind (lookup meas (meas_qubits ! k)) (\<lambda>b.
                        ebind (py_index c (- 1 - int k)) (\<lambda>ch.
                        ebind (py_int_char ch) (\<lambda>d. Inr (b, d)))))
               [0..<length meas_qubits]) (\<lambda>m.
      if truthy (tc_prep tc) then
        (case tc_prep tc of
           None \<Rightarrow> Inr (m, None)
         | Some prep \<Rightarrow>
             let prep_qubits = sort (map fst prep) in
             ebind (mapM (\<lambda>k. lookup prep (prep_qubits ! k)) [0..<length prep_qubits])
               (\<lambda>pr. Inr (m, Some pr)))
      else Inr (m, None)))"

text \<open>The body of the loop over the labels, lines 266 to 295, for the index \<open>j\<close>.\<close>

definition postselect_item ::
  "env \<Rightarrow> string list \<Rightarrow> tomoset \<Rightarrow> creg option \<Rightarrow> nat
     \<Rightarrow> error + tomo_item \<times> (nat \<times> string) list option" where
  "postselect_item env labels ts select j =
     ebind (py_index (result_clbit_labels env) (int j)) (\<lambda>cl.
     ebind (py_index labels (int j)) (\<lambda>label.
     ebind (postselect_counts select cl (get_counts env label) (ts_qubits ts)) (\<lambda>cnts.
     ebind (py_index (ts_circuits ts) (int j)) (\<lambda>tc.
     ebind (mapM (outcome_ann tc) (map fst cnts)) (\<lambda>anns.
     Inr (\<lparr>td_counts = cnts, td_shots = total cnts, td_circuit = zip (map fst cnts) anns\<rparr>,
          tc_prep tc))))))"

definition tomo_postselect :: "env \<Rightarrow> string \<Rightarrow> tomoset \<Rightarrow> creg option \<Rightarrow> error + tomo_data" where
  "tomo_postselect env name ts select =
     (let labels = tomography_circuit_names env ts name in
      ebind (mapM (postselect_item env labels ts select) [0..<length labels]) (\<lambda>items.
      let prep = (if items = [] then None else snd (last items));
          r = \<lparr>td_data = map fst items, td_meas_basis = ts_meas_basis ts, td_prep_basis = None\<rparr>
      in if truthy prep then
           (case ts_prep_basis ts of
              None \<Rightarrow> Inl KeyError
            | Some pb \<Rightarrow> Inr (r\<lparr>td_prep_basis := Some pb\<rparr>))
         else Inr r))"

subsection \<open>\<^verbatim>\<open>HHL._state_tomography\<close>, lines 230 to 257\<close>

text \<open>Lines 243 to 249: the share of the shots whose key ends in \<^verbatim>\<open>1\<close>.\<close>

fun success_failure :: "counts \<Rightarrow> error + int \<times> int" where
  "success_failure [] = Inr (0, 0)"
| "success_failure ((k, v) # rest) =
     ebind (py_index k (- 1)) (\<lambda>c.
     ebind (success_failure rest) (\<lambda>(s, f).
     Inr (if c = CHR ''1'' then (s + v, f) else (s, f + v))))"

definition success_probability :: "counts \<Rightarrow> error + real" where
  "success_probability cs =
     ebind (success_failure cs) (\<lambda>(s, f).
       if f + s = 0 then Inl ZeroDivisionError else Inr (real_of_int s / real_of_int (f + s)))"

text \<open>
  Line 256, \<^verbatim>\<open>rho_fit[:, 0]/np.sqrt(rho_fit[0, 0])\<close>: the first column of the fitted
  matrix over the square root of its first entry. Indexing raises on an empty matrix;
  the division does not raise.
\<close>

definition tomo_vec :: "cmat \<Rightarrow> error + npvec" where
  "tomo_vec rho_fit =
     (if rho_fit = [] \<or> [] \<in> set rho_fit then Inl IndexError
      else Inr (vec_div (map hd rho_fit) (csqrt (hd (hd rho_fit)))))"

definition state_tomography :: "env \<Rightarrow> hhl \<Rightarrow> error + hhl" where
  "state_tomography env s =
     (case circuit s of
        None \<Rightarrow> Inl AttributeError
      | Some qc \<Rightarrow>
          let c = ClassicalRegister (num_q s) (tomo_creg_name env);
              qc' = add_register qc c;
              tomo_set = state_tomography_set env [0..<num_q s];
              tomo_circuits = tomography_circuit_names env tomo_set (circ_name qc')
          in ebind (mapM (\<lambda>circ. success_probability (get_counts env circ)) tomo_circuits) (\<lambda>probs.
             let s1 = s\<lparr>circuit := Some qc',
                        ret := (ret s)\<lparr>probability_result := Some (ProbList probs)\<rparr>\<rparr> in
             ebind (tomo_postselect env (circ_name qc') tomo_set (success_bit s1)) (\<lambda>tomo_data.
             let rho_fit = fit_tomography_data env tomo_data in
             ebind (tomo_vec rho_fit) (\<lambda>vec.
             hhl_results env s1 vec))))"

subsection \<open>\<^verbatim>\<open>HHL._run\<close>, lines 315 to 331\<close>

definition run :: "env \<Rightarrow> hhl \<Rightarrow> error + hhl" where
  "run env s =
     ebind (if is_statevector env
            then statevector_simulation env (construct_circuit env False s)
            else state_tomography env (construct_circuit env True s)) (\<lambda>s1.
     ebind (linalg_eig env (matrix s1)) (\<lambda>ev.
     ebind (linalg_solve env (matrix s1) (vector s1)) (\<lambda>x.
     (case circuit s1 of
        None \<Rightarrow> Inl AttributeError
      | Some qc \<Rightarrow>
          Inr (s1\<lparr>ret := (ret s1)\<lparr>input_matrix := Some (matrix s1),
                                    input_vector := Some (vector s1),
                                    eigenvalues_classical := Some ev,
                                    solution_classical := Some x,
                                    circuit_width := Some (dag_width env qc),
                                    circuit_depth := Some (dag_depth env qc),
                                    gate_count_total := Some (number_atomic_gates env qc)\<rparr>\<rparr>)))))"

subsection \<open>\<^verbatim>\<open>HHL.init_params\<close>, lines 125 to 163\<close>

datatype pval = PStr string | PNat nat | PBool bool | PReal real | PVec cvec

type_synonym psection = "(string \<times> pval) list"
type_synonym params = "(string \<times> psection) list"

record linear_system_input =
  li_matrix :: cmat
  li_vector :: cvec

text \<open>
  \<^verbatim>\<open>get_pluggable_class(type, name).init_params(...)\<close> for the three kinds of
  component: the registry of the framework, outside this file.
\<close>

record pluggables =
  eigs_init_params :: "pval \<Rightarrow> params \<Rightarrow> cmat \<Rightarrow> error + eigs_obj"
  init_state_init_params :: "pval \<Rightarrow> params \<Rightarrow> error + init_state_obj"
  reciprocal_init_params :: "pval \<Rightarrow> params \<Rightarrow> error + reciprocal_obj"

text \<open>\<^verbatim>\<open>params.get(key)\<close> followed by a subscript: \<^verbatim>\<open>None\<close> cannot be subscripted.\<close>

definition get_section :: "params \<Rightarrow> string \<Rightarrow> error + psection" where
  "get_section ps key = (case map_of ps key of None \<Rightarrow> Inl TypeError | Some sec \<Rightarrow> Inr sec)"

definition init_params :: "pluggables \<Rightarrow> params \<Rightarrow> linear_system_input option \<Rightarrow> error + hhl" where
  "init_params reg ps algo_input =
     (case algo_input of
        None \<Rightarrow> Inl (AquaError ''LinearSystemInput instance is required.'')
      | Some inp \<Rightarrow>
          let m = li_matrix inp; v = li_vector inp in
          ebind (check_dimensions m v) (\<lambda>_.
          ebind (get_section ps ''eigs'') (\<lambda>eigs_params.
          ebind (lookup eigs_params ''name'') (\<lambda>en.
          ebind (eigs_init_params reg en ps m) (\<lambda>e.
          let (nq, na) = get_register_sizes e in
          ebind (get_section ps ''initial_state'') (\<lambda>init_state_params.
          let isp = AList.update ''state_vector'' (PVec v)
                      (AList.update ''num_qubits'' (PNat nq) init_state_params);
              ps1 = AList.update ''initial_state'' isp ps in
          ebind (lookup isp ''name'') (\<lambda>isn.
          ebind (init_state_init_params reg isn ps1) (\<lambda>i.
          ebind (get_section ps1 ''reciprocal'') (\<lambda>reciprocal_params.
          let rp = AList.update ''evo_time'' (PReal (evo_time e))
                     (AList.update ''negative_evals'' (PBool (negative_evals e)) reciprocal_params);
              ps2 = AList.update ''reciprocal'' rp ps1 in
          ebind (lookup rp ''name'') (\<lambda>rn.
          ebind (reciprocal_init_params reg rn ps2) (\<lambda>r.
          Inr (HHL m v e i r nq na))))))))))))"

section \<open>A run on a system of one qubit\<close>

text \<open>
  The identity matrix of dimension two with a right-hand side \<open>b\<close>, components that each
  contribute one block of gates, a backend that answers every circuit with the state
  \<open>|00\<rangle>\<close> and with the same three counts, and a tomography fit that returns a given
  matrix \<open>rho\<close>. The classical solver has the solution of the identity system, \<open>b\<close> itself.
\<close>

definition ex_init_state :: init_state_obj where
  "ex_init_state = \<lparr>init_construct_circuit =
     (\<lambda>q. \<lparr>circ_name = ''init'', qregs = [q], cregs = [], gates = [Block ''initial_state'']\<rparr>)\<rparr>"

definition ex_eigs :: eigs_obj where
  "ex_eigs = \<lparr>get_register_sizes = (1, 2), negative_evals = False, evo_time = 1,
     eigs_construct_circuit =
       (\<lambda>q. \<lparr>circ_name = ''qpe'', qregs = [q, QuantumRegister 2 ''a''], cregs = [],
              gates = [Block ''qpe'']\<rparr>),
     eigs_circuit = \<lparr>circ_name = ''qpe'',
        qregs = [QuantumRegister 1 ''io'', QuantumRegister 2 ''a''], cregs = [],
        gates = [Block ''qpe'']\<rparr>,
     eigs_input_register = QuantumRegister 1 ''io'',
     eigs_output_register = QuantumRegister 2 ''a'',
     eigs_construct_inverse =
       (\<lambda>c i out. \<lparr>circ_name = ''qpe_inverse'', qregs = [i, out], cregs = [],
                    gates = [Block ''qpe_inverse'']\<rparr>)\<rparr>"

definition ex_reciprocal :: reciprocal_obj where
  "ex_reciprocal = \<lparr>reci_construct_circuit =
       (\<lambda>a. \<lparr>circ_name = ''reciprocal'', qregs = [a, QuantumRegister 1 ''anc''], cregs = [],
              gates = [Block ''rotation'']\<rparr>),
     reci_anc = QuantumRegister 1 ''anc'',
     sv_to_resvec = (\<lambda>sv n. take (2 ^ n) sv)\<rparr>"

definition ex_hhl :: "cvec \<Rightarrow> hhl" where
  "ex_hhl b = HHL [[1, 0], [0, 1]] b ex_eigs ex_init_state ex_reciprocal 1 2"

definition ex_env :: "bool \<Rightarrow> cmat \<Rightarrow> env" where
  "ex_env sv rho = \<lparr>is_statevector = sv,
     get_statevector = (\<lambda>qc. [1, 0, 0, 0]),
     get_counts = (\<lambda>label. [(''0 1'', 60), (''1 1'', 20), (''0 0'', 20)]),
     result_clbit_labels = [[(''c0'', 0), (''c1'', 0)]],
     fresh_circuit_name = ''circuit0'',
     success_creg_name = ''c0'',
     tomo_creg_name = ''c1'',
     state_tomography_set = (\<lambda>qs. \<lparr>ts_qubits = qs,
        ts_circuits = [\<lparr>tc_meas = [(0, ''Z'')], tc_prep = None\<rparr>],
        ts_meas_basis = ''Pauli'', ts_prep_basis = None\<rparr>),
     tomography_circuit_names = (\<lambda>ts name. [name @ ''_meas_Z(0)'']),
     fit_tomography_data = (\<lambda>d. rho),
     linalg_solve = (\<lambda>A b. Inr b),
     linalg_eig = (\<lambda>A. Inr [1, 1]),
     dag_width = (\<lambda>qc. 5),
     dag_depth = (\<lambda>qc. 4),
     number_atomic_gates = (\<lambda>qc. 4)\<rparr>"

text \<open>
  A matrix of \<open>2\<^sup>4\<^sup>9 + 1\<close> rows without columns and a vector of the same length
  (numpy holds such a matrix, \<^verbatim>\<open>np.empty((2**49 + 1, 0))\<close>, without storage), and
  pluggable components and parameters with which \<^verbatim>\<open>init_params\<close> reaches its end.
\<close>

definition big_matrix :: cmat where
  "big_matrix = replicate (2 ^ 49 + 1) []"

definition big_vector :: cvec where
  "big_vector = replicate (2 ^ 49 + 1) 0"

definition ex_pluggables :: pluggables where
  "ex_pluggables = \<lparr>eigs_init_params = (\<lambda>name ps m. Inr ex_eigs),
     init_state_init_params = (\<lambda>name ps. Inr ex_init_state),
     reciprocal_init_params = (\<lambda>name ps. Inr ex_reciprocal)\<rparr>"

definition ex_params :: params where
  "ex_params = [(''eigs'', [(''name'', PStr ''EigsQPE'')]),
                (''initial_state'', [(''name'', PStr ''CUSTOM'')]),
                (''reciprocal'', [(''name'', PStr ''Lookup'')])]"

section \<open>Properties\<close>

subsection \<open>Sequencing\<close>

lemma ebind_Inr_iff: "ebind m f = Inr y \<longleftrightarrow> (\<exists>x. m = Inr x \<and> f x = Inr y)"
  by (cases m) (simp_all add: ebind_def)

lemma ebind_Inr [simp]: "ebind (Inr x) f = f x"
  by (simp add: ebind_def)

lemma ebind_Inl [simp]: "ebind (Inl e) f = Inl e"
  by (simp add: ebind_def)

subsection \<open>Input validation\<close>

text \<open>
  Rounding: an integer below \<open>2\<^sup>5\<^sup>3\<close> is a float64, and a number less than half a
  unit above an integer is rounded to that integer.
\<close>

lemma round_even_int: "round_even (of_int n) = n"
  by (simp add: round_even_def)

lemma round_even_near:
  assumes "of_int n \<le> y" and "y < of_int n + 1 / 2"
  shows "round_even y = n"
proof -
  from assms have "\<lfloor>y\<rfloor> = n" by linarith
  with assms show ?thesis by (simp add: round_even_def)
qed

lemma f64_nat:
  assumes pos: "0 < n" and small: "n < 2 ^ 53"
  shows "f64 (real n) = real n"
proof -
  define e where "e = \<lfloor>log 2 (real n)\<rfloor>"
  have "0 \<le> log 2 (real n)" using pos by simp
  then have e0: "0 \<le> e" by (simp add: e_def)
  have "log 2 (real n) < real (53 :: nat)"
    using small pos by (intro log2_of_power_less) simp_all
  then have e52: "e \<le> 52" unfolding e_def by linarith
  define d where "d = nat (52 - e)"
  have u: "(2 :: real) powi (e - 52) = 1 / 2 ^ d"
    using e52 by (simp add: power_int_def d_def field_simps)
  have "real n / (1 / 2 ^ d) = of_int (int n * 2 ^ d)" by simp
  then have "round_even (real n / (1 / 2 ^ d)) = int n * 2 ^ d"
    by (simp only: round_even_int)
  then show ?thesis
    using pos unfolding f64_def Let_def e_def [symmetric] by (simp add: u e_def [symmetric])
qed

lemma half_less_ln2: "1 / 2 < ln (2 :: real)"
proof -
  have "(exp (1 / 2 :: real))\<^sup>2 = exp 1"
    by (simp add: exp_double [symmetric])
  also have "\<dots> \<le> 3" by (rule exp_le)
  finally have "(exp (1 / 2 :: real))\<^sup>2 < 2\<^sup>2" by simp
  then have "exp (1 / 2 :: real) < 2"
    by (rule power2_less_imp_less) simp
  then have "ln (exp (1 / 2 :: real)) < ln 2"
    by (subst ln_less_cancel_iff) simp_all
  then show ?thesis by simp
qed

lemma log2_succ_bounds:
  fixes k :: nat
  shows "real k \<le> log 2 (2 ^ k + 1) \<and> log 2 (2 ^ k + 1) < real k + 2 / 2 ^ k"
proof -
  let ?x = "1 / 2 ^ k :: real"
  have pos: "0 < ?x" by simp
  have eq: "(2 ^ k + 1 :: real) = 2 ^ k * (1 + ?x)" by (simp add: algebra_simps)
  have "log 2 (2 ^ k * (1 + ?x)) = log 2 (2 ^ k) + log 2 (1 + ?x)"
  proof -
    have "1 + ?x \<noteq> 0" using pos by linarith
    then show ?thesis by (simp add: log_mult)
  qed
  then have L: "log 2 (2 ^ k + 1 :: real) = real k + ln (1 + ?x) / ln 2"
    unfolding eq [symmetric] by (simp add: log_def ln_realpow)
  have "0 \<le> ln (1 + ?x)" by simp
  then have lo: "0 \<le> ln (1 + ?x) / ln 2" by simp
  have "ln (1 + ?x) \<le> ?x" by (rule ln_add_one_self_le_self) simp
  then have "ln (1 + ?x) / ln 2 \<le> ?x / ln 2"
    by (rule divide_right_mono) simp
  also have "\<dots> < ?x / (1 / 2)"
    using half_less_ln2 pos by (intro divide_strict_left_mono) simp_all
  finally have "ln (1 + ?x) / ln 2 < 2 / 2 ^ k" by simp
  with lo L show ?thesis by simp
qed

text \<open>
  The test of line 138 accepts the powers of two and rejects 3.
\<close>

lemma np_log2_pow2:
  assumes "k \<le> 52"
  shows "np_log2 (2 ^ k) = real k"
proof -
  have "(2 :: nat) ^ k < 2 ^ 53" using assms by (intro power_strict_increasing) simp_all
  then have a: "f64 (real ((2 :: nat) ^ k)) = real ((2 :: nat) ^ k)" by (intro f64_nat) simp_all
  have b: "f64 (real k) = real k"
  proof (cases "k = 0")
    case True
    then show ?thesis by (simp add: f64_def)
  next
    case False
    have "k < 2 ^ 53" using assms by simp
    with False show ?thesis by (intro f64_nat) simp_all
  qed
  show ?thesis unfolding np_log2_def a using b by simp
qed

lemma log2_3_bounds: "3 / 2 \<le> log 2 3 \<and> log 2 3 \<le> 7 / 4"
proof -
  have "real (3 :: nat) \<le> log 2 (real (9 :: nat))" by (rule le_log2_of_power) simp
  moreover have "log 2 (real (9 :: nat)) = 2 * log 2 3"
    using log_nat_power [of 3 2 2] by simp
  moreover have "log 2 (real (81 :: nat)) \<le> real (7 :: nat)" by (rule log2_of_power_le) simp_all
  moreover have "log 2 (real (81 :: nat)) = 4 * log 2 3"
    using log_nat_power [of 3 2 4] by simp
  ultimately show ?thesis by simp
qed

lemma np_log2_3: "1 < np_log2 3 \<and> np_log2 3 < 2"
proof -
  let ?L = "log 2 (3 :: real)"
  from log2_3_bounds have b: "3 / 2 \<le> ?L" "?L \<le> 7 / 4" by simp_all
  have f3: "f64 (real 3) = real 3" by (rule f64_nat) simp_all
  have "\<lfloor>log 2 ?L\<rfloor> = 0"
  proof (subst floor_log_eq_powr_iff)
    show "0 < ?L" using b by linarith
    show "(1 :: real) < 2" by simp
    show "2 powr real_of_int 0 \<le> ?L \<and> ?L < 2 powr real_of_int (0 + 1)" using b by simp
  qed
  moreover have "0 < ?L" using b by linarith
  ultimately have fl: "\<lfloor>log 2 \<bar>?L\<bar>\<rfloor> - 52 = - 52" by simp
  define r where "r = round_even (?L * 2 ^ 52)"
  have lo: "\<lfloor>?L * 2 ^ 52\<rfloor> \<le> r" and hi: "r \<le> \<lfloor>?L * 2 ^ 52\<rfloor> + 1"
    by (simp_all add: r_def round_even_def Let_def)
  have "(3 / 2) * 2 ^ 52 \<le> ?L * 2 ^ 52" using b by simp
  then have "of_int (3 * 2 ^ 51) \<le> ?L * 2 ^ 52" by simp
  then have "3 * 2 ^ 51 \<le> \<lfloor>?L * 2 ^ 52\<rfloor>" by (simp only: le_floor_iff)
  with lo have r1: "3 * 2 ^ 51 \<le> r" by linarith
  have "?L * 2 ^ 52 \<le> (7 / 4) * 2 ^ 52" using b by simp
  then have "?L * 2 ^ 52 \<le> of_int (7 * 2 ^ 50)" by simp
  then have "\<lfloor>?L * 2 ^ 52\<rfloor> \<le> 7 * 2 ^ 50" by (simp only: floor_le_iff)
  with hi have r2: "r \<le> 7 * 2 ^ 50 + 1" by linarith
  have ne: "?L \<noteq> 0" using b by linarith
  have "f64 ?L = of_int r / 2 ^ 52"
    using ne unfolding f64_def Let_def fl
    by (simp add: power_int_minus r_def field_simps)
  moreover have "(1 :: real) < of_int r / 2 ^ 52"
  proof -
    from r1 have "(2 :: real) ^ 52 < of_int r" by (simp add: of_int_less_iff [symmetric] del: of_int_less_iff)
    then show ?thesis by (simp add: field_simps)
  qed
  moreover have "of_int r / 2 ^ 52 < (2 :: real)"
  proof -
    from r2 have "of_int r < (2 :: real) * 2 ^ 52" by (simp add: of_int_less_iff [symmetric] del: of_int_less_iff)
    then show ?thesis by (simp add: field_simps)
  qed
  ultimately show ?thesis unfolding np_log2_def f3 by simp
qed

lemma frac_between: "1 < x \<Longrightarrow> x < 2 \<Longrightarrow> frac (x :: real) \<noteq> 0"
proof -
  assume "1 < x" "x < 2"
  then have "\<lfloor>x\<rfloor> = 1" by linarith
  with \<open>1 < x\<close> show ?thesis by (simp add: frac_def)
qed

lemma f64_big: "f64 (real (2 ^ 49 + 1)) = 2 ^ 49 + 1"
  using f64_nat [of "2 ^ 49 + 1"] by simp

lemma np_log2_big: "np_log2 (2 ^ 49 + 1) = 49"
proof -
  let ?L = "log 2 (2 ^ 49 + 1 :: real)"
  from log2_succ_bounds [of 49] have b: "49 \<le> ?L" "?L < 49 + 2 / 2 ^ 49" by simp_all
  then have pos: "0 < ?L" and ne: "?L \<noteq> 0" by linarith+
  have "\<lfloor>log 2 ?L\<rfloor> = 5"
  proof (subst floor_log_eq_powr_iff)
    show "0 < ?L" by (rule pos)
    show "(1 :: real) < 2" by simp
    have "?L < 64" using b by simp
    with b show "2 powr real_of_int 5 \<le> ?L \<and> ?L < 2 powr real_of_int (5 + 1)" by simp
  qed
  then have fl: "\<lfloor>log 2 \<bar>?L\<bar>\<rfloor> - 52 = - 47" using pos by simp
  have y: "?L / 2 powi (- 47) = ?L * 2 ^ 47" by (simp add: power_int_minus)
  have "round_even (?L * 2 ^ 47) = 49 * 2 ^ 47"
  proof (rule round_even_near)
    show "real_of_int (49 * 2 ^ 47) \<le> ?L * 2 ^ 47" using b by simp
    have "?L * 2 ^ 47 < (49 + 2 / 2 ^ 49) * 2 ^ 47" using b by simp
    then show "?L * 2 ^ 47 < real_of_int (49 * 2 ^ 47) + 1 / 2" by simp
  qed
  then have "f64 ?L = 49"
    using ne unfolding f64_def Let_def fl y by (simp add: power_int_minus)
  moreover have "f64 (real (2 ^ 49 + 1)) = 2 ^ 49 + 1" by (rule f64_big)
  ultimately show ?thesis by (simp add: np_log2_def)
qed

lemma length_big: "length big_matrix = 2 ^ 49 + 1 \<and> length big_vector = 2 ^ 49 + 1"
  by (simp only: big_matrix_def big_vector_def length_replicate simp_thms)

lemma check_dimensions_big: "check_dimensions big_matrix big_vector = Inr ()"
proof -
  have "\<not> log2_mod1_nonzero (2 ^ 49 + 1)"
    unfolding log2_mod1_nonzero_def np_log2_big by simp
  then show ?thesis
    unfolding check_dimensions_def by (simp only: length_big) simp
qed

lemma check_dimensions_examples:
  "check_dimensions [[1, 0], [0, 1]] [1, 0] = Inr ()
   \<and> check_dimensions [[1, 0, 0], [0, 1, 0], [0, 0, 1]] [1, 0, 0]
       = Inl (ValueError ''Matrix dimension must be 2**n!'')
   \<and> check_dimensions [[1, 0], [0, 1]] [1, 0, 0]
       = Inl (ValueError ''Input vector dimension does not match input matrix dimension!'')"
proof -
  have "np_log2 2 = 1" using np_log2_pow2 [of 1] by simp
  then have two: "\<not> log2_mod1_nonzero 2" by (simp add: log2_mod1_nonzero_def)
  have three: "log2_mod1_nonzero 3"
    using np_log2_3 frac_between [of "np_log2 3"] by (simp add: log2_mod1_nonzero_def)
  from two three show ?thesis
    by (simp add: check_dimensions_def numeral_2_eq_2 numeral_3_eq_3)
qed

text \<open>
  Claim C1. The claim is what the code intends, its message says that the dimension has to
  be \<^verbatim>\<open>2**n\<close>, but the test of line 138 is carried out in float64: for a matrix of
  \<open>2\<^sup>4\<^sup>9 + 1\<close> rows, a number strictly between two consecutive powers of two, and a
  vector of the same length, \<^verbatim>\<open>np.log2\<close> returns 49, the remainder is 0, the validation
  succeeds and \<^verbatim>\<open>init_params\<close> returns an object.
\<close>

theorem init_params_accepts_non_power_of_two:
  "length big_matrix = 2 ^ 49 + 1 \<and> length big_vector = 2 ^ 49 + 1
   \<and> (2 :: nat) ^ 49 < 2 ^ 49 + 1 \<and> (2 :: nat) ^ 49 + 1 < 2 ^ 50
   \<and> check_dimensions big_matrix big_vector = Inr ()
   \<and> init_params ex_pluggables ex_params
        (Some \<lparr>li_matrix = big_matrix, li_vector = big_vector\<rparr>)
       = Inr (HHL big_matrix big_vector ex_eigs ex_init_state ex_reciprocal 1 2)"
proof -
  have "init_params ex_pluggables ex_params
          (Some \<lparr>li_matrix = big_matrix, li_vector = big_vector\<rparr>)
        = Inr (HHL big_matrix big_vector ex_eigs ex_init_state ex_reciprocal 1 2)"
    by (simp add: init_params_def check_dimensions_big get_section_def lookup_def
        ex_pluggables_def ex_params_def ex_eigs_def Let_def)
  with length_big check_dimensions_big show ?thesis by simp
qed

subsection \<open>Post-selection\<close>

lemma filter_pairs_all_zero:
  "\<forall>(k, v) \<in> set cs. py_index k (- 1 - b) = Inr (CHR ''0'') \<Longrightarrow> filter_pairs (Some b) cs = Inr []"
  by (induction cs) (auto simp: py_int_char_def is_digit_def)


lemma update_fresh: "k \<notin> fst ` set d \<Longrightarrow> AList.update k v d = d @ [(k, v)]"
  by (induction d) auto

lemma foldl_update_distinct:
  "distinct (map fst (d @ ps)) \<Longrightarrow> foldl (\<lambda>d (k, v). AList.update k v d) d ps = d @ ps"
proof (induction ps arbitrary: d)
  case Nil
  then show ?case by simp
next
  case (Cons p ps)
  obtain k v where p: "p = (k, v)" by (cases p)
  from Cons.prems p have fresh: "k \<notin> fst ` set d" by auto
  from Cons.prems p have "distinct (map fst ((d @ [(k, v)]) @ ps))" by auto
  from Cons.IH [OF this] fresh p show ?case by (simp add: update_fresh)
qed

lemma dict_of_pairs_distinct: "distinct (map fst ps) \<Longrightarrow> dict_of_pairs ps = ps"
  using foldl_update_distinct [of "[]" ps] by (simp add: dict_of_pairs_def)


lemma bitstrings_distinct: "distinct (bitstrings n)"
  by (induction n) (auto simp: distinct_map)


lemma count_keys_distinct: "distinct (count_keys n)"
  by (simp add: count_keys_def bitstrings_distinct)








lemma marginal_counts_Cons:
  "marginal_counts ((k0, v0) # rest) qubits = Inr (dict_of_pairs
     (map (\<lambda>key. (key, sum_list (map snd (filter (\<lambda>(k, v).
         re_match (rgx_of (length k0) (rev (sort qubits)) key) k) ((k0, v0) # rest)))))
       (count_keys (length (rev (sort qubits))))))"
  by (simp add: marginal_counts_def Let_def)



lemma marginal_counts_of_placeholder:
  "marginal_counts [(''0'', 0)] qubits = Inr (map (\<lambda>key. (key, 0)) (count_keys (length qubits)))"
proof -
  have "distinct (map fst (map (\<lambda>key. (key, 0 :: int)) (count_keys (length qubits))))"
    by (simp add: comp_def count_keys_distinct)
  then have "dict_of_pairs (map (\<lambda>key. (key, 0 :: int)) (count_keys (length qubits)))
             = map (\<lambda>key. (key, 0)) (count_keys (length qubits))"
    by (rule dict_of_pairs_distinct)
  moreover have "sum_list (map snd (filter (\<lambda>(k, v). re_match (rgx_of (length ''0'') (rev (sort qubits)) key) k)
                     [(''0'', 0 :: int)])) = 0" for key
    by simp
  ultimately show ?thesis
    unfolding marginal_counts_Cons by (simp only: length_rev length_sort)
qed

text \<open>
  Claim C3, as amended. The claim as stated fails: the mapping \<^verbatim>\<open>{'0': 0}\<close> is what
  line 279 puts in the place of the empty filtered mapping, but line 280 hands it to
  \<^verbatim>\<open>tomo.marginal_counts\<close>, and what is stored for the circuit is the result of that.
  What holds: for every raw counts mapping in which the selected bit
  \<^verbatim>\<open>k[-1-select_bitpos]\<close> is \<^verbatim>\<open>0\<close> in every entry, the filtered mapping becomes
  \<^verbatim>\<open>{'0': 0}\<close>, and the filter yields the count 0 for every bit string over the target
  qubits, one entry for each of the \<open>2\<^sup>n\<close> strings over \<open>n\<close> qubits (the keys of
  \<^verbatim>\<open>count_keys\<close>), so never an empty mapping.
\<close>

theorem postselect_all_failed:
  assumes bit: "find_bitpos select labels None = Inr (Some b)"
    and zeros: "\<forall>(k, v) \<in> set cs. py_index k (- 1 - b) = Inr (CHR ''0'')"
  shows "filt_labels (Some b) cs = Inr [(''0'', 0)]
       \<and> postselect_counts select labels cs qubits
           = Inr (map (\<lambda>key. (key, 0)) (count_keys (length qubits)))"
proof -
  have fl: "filt_labels (Some b) cs = Inr [(''0'', 0)]"
    using zeros by (simp add: filt_labels_def filter_pairs_all_zero dict_of_pairs_def)
  with bit show ?thesis
    by (simp add: postselect_counts_def marginal_counts_of_placeholder)
qed

theorem postselect_all_failed_witness:
  "postselect_counts (Some (ClassicalRegister 1 ''c0'')) [(''c0'', 0), (''c1'', 0), (''c1'', 1)]
     [(''00 0'', 3), (''01 0'', 4)] [0, 1]
   = Inr [(''00'', 0), (''01'', 0), (''10'', 0), (''11'', 0)]"
  using postselect_all_failed [of "Some (ClassicalRegister 1 ''c0'')"
      "[(''c0'', 0), (''c1'', 0), (''c1'', 1)]" 0 "[(''00 0'', 3), (''01 0'', 4)]" "[0, 1]"]
  by (simp add: py_index_def count_keys_def numeral_2_eq_2)

text \<open>
  One target qubit and two entries with the success bit 0: the filter yields two
  entries, not the single entry \<^verbatim>\<open>{'0': 0}\<close>.
\<close>

theorem postselect_all_failed_counterexample:
  "py_index ''0 0'' (- 1 - 0) = Inr (CHR ''0'') \<and> py_index ''1 0'' (- 1 - 0) = Inr (CHR ''0'')
   \<and> postselect_counts (Some (ClassicalRegister 1 ''c0'')) [(''c0'', 0), (''c1'', 0)]
        [(''0 0'', 5), (''1 0'', 3)] [0] = Inr [(''0'', 0), (''1'', 0)]
   \<and> [(''0'', 0), (''1'', 0)] \<noteq> [(''0'', 0 :: int)]"
  by (simp add: postselect_counts_def filt_labels_def dict_of_pairs_def marginal_counts_def
      count_keys_def rgx_of_def py_index_def py_int_char_def is_digit_def py_slice_to_def
      Let_def)




text \<open>
  Three entries that pass and one that fails, with the target qubit 0 of two: the counts
  of \<^verbatim>\<open>01\<close> and \<^verbatim>\<open>11\<close> are added up.
\<close>

lemma postselect_marginalised_example:
  "postselect_counts (Some (ClassicalRegister 1 ''c0''))
     [(''c0'', 0), (''c1'', 0), (''c1'', 1)]
     [(''01 1'', 3), (''10 1'', 4), (''11 1'', 5), (''00 0'', 9)] [0] = Inr [(''0'', 4), (''1'', 8)]"
  by (simp add: postselect_counts_def filt_labels_def dict_of_pairs_def marginal_counts_def
      count_keys_def rgx_of_def py_index_def py_int_char_def is_digit_def py_slice_to_def
      Let_def)

subsection \<open>The result step\<close>

text \<open>
  What a successful call of \<^verbatim>\<open>_hhl_results\<close> has computed and stored.
\<close>

lemma hhl_results_Inr:
  assumes "hhl_results env s vec = Inr s'"
  shows "\<exists>x d tmp p f2.
      linalg_solve env (matrix s) (vector s) = Inr x
    \<and> np_dot (vec_div x (complex_of_real (l2norm x))) (np_conj vec) = Inr d
    \<and> mat_dot (matrix s) vec = Inr tmp
    \<and> np_mul (vector s) (np_conj tmp) = Inr p
    \<and> angle_mean p (num_q s) = Inr f2
    \<and> s' = s\<lparr>ret := (ret s)\<lparr>output_hhl := Some vec,
                fidelity_hhl_to_classical := Some (np_abs_sq d),
                solution_hhl := Some (np_scale (np_rdiv (l2norm (vector s)) (np_norm tmp)) f2 vec)\<rparr>\<rparr>"
  using assms by (auto simp: hhl_results_def ebind_Inr_iff Let_def)

lemma hhl_results_frame:
  assumes "hhl_results env s vec = Inr s'"
  shows "matrix s' = matrix s \<and> vector s' = vector s \<and> circuit s' = circuit s
       \<and> success_bit s' = success_bit s
       \<and> probability_result (ret s') = probability_result (ret s)
       \<and> output_hhl (ret s') = Some vec"
  using hhl_results_Inr [OF assms] by auto

lemma sum_sq_nonneg: "0 \<le> sum_list (map (\<lambda>z. (cmod z)\<^sup>2) xs)"
  by (induction xs) auto

lemma l2norm_sq: "(l2norm xs)\<^sup>2 = sum_list (map (\<lambda>z. (cmod z)\<^sup>2) xs)"
  by (simp add: l2norm_def sum_sq_nonneg)

lemma l2norm_nonneg: "0 \<le> l2norm xs"
  by (simp add: l2norm_def sum_sq_nonneg)

lemma vdot_map: "vdot (map f xs) (map g xs) = sum_list (map (\<lambda>t. f t * g t) xs)"
  by (induction xs) (simp_all add: vdot_def)

lemma mult_cnj_cmod: "a * cnj a = (complex_of_real (cmod a))\<^sup>2"
  using complex_norm_square [of a] by simp

lemma vdot_cnj_self: "vdot xs (map cnj xs) = complex_of_real ((l2norm xs)\<^sup>2)"
proof -
  have "vdot (map (\<lambda>t. t) xs) (map cnj xs) = sum_list (map (\<lambda>t. t * cnj t) xs)"
    by (rule vdot_map)
  also have "\<dots> = complex_of_real (sum_list (map (\<lambda>z. (cmod z)\<^sup>2) xs))"
    by (induction xs) (simp_all add: mult_cnj_cmod)
  finally show ?thesis by (simp add: l2norm_sq)
qed

lemma vdot_scale_right: "vdot r (map (\<lambda>z. a * z * e) v) = a * e * vdot r v"
proof (induction r arbitrary: v)
  case Nil
  then show ?case by (simp add: vdot_def)
next
  case (Cons x r)
  then show ?case by (cases v) (simp_all add: vdot_def algebra_simps)
qed

lemma l2norm_scale: "l2norm (map (\<lambda>y. c * y) t) = cmod c * l2norm t"
proof -
  have "sum_list (map (\<lambda>z. (cmod z)\<^sup>2) (map (\<lambda>y. c * y) t))
        = (cmod c)\<^sup>2 * sum_list (map (\<lambda>z. (cmod z)\<^sup>2) t)"
    by (induction t) (simp_all add: norm_mult power_mult_distrib algebra_simps)
  then show ?thesis
    by (simp add: l2norm_def real_sqrt_mult)
qed

lemma fidelity_phase:
  assumes nz: "l2norm x \<noteq> 0"
  shows "vdot (map (\<lambda>t. t / complex_of_real (l2norm x)) x)
           (map cnj (map (\<lambda>t. cis \<theta> * (t / complex_of_real (l2norm x))) x)) = cnj (cis \<theta>)"
proof -
  let ?r = "complex_of_real (l2norm x)"
  have r: "?r \<noteq> 0" using nz by simp
  define k where "k = cnj (cis \<theta>) / (?r * ?r)"
  have "vdot (map (\<lambda>t. t / ?r) x) (map (\<lambda>t. cnj (cis \<theta> * (t / ?r))) x)
        = sum_list (map (\<lambda>t. (t / ?r) * cnj (cis \<theta> * (t / ?r))) x)"
    by (rule vdot_map)
  also have "\<dots> = sum_list (map (\<lambda>t. k * (t * cnj t)) x)"
    unfolding k_def by (intro arg_cong [where f = sum_list] map_cong refl) (simp add: field_simps)
  also have "\<dots> = k * sum_list (map (\<lambda>t. t * cnj t) x)"
    by (rule sum_list_const_mult)
  also have "sum_list (map (\<lambda>t. t * cnj t) x) = vdot x (map cnj x)"
    using vdot_map [of "\<lambda>t. t" x cnj] by simp
  also have "\<dots> = ?r * ?r"
    by (simp add: vdot_cnj_self power2_eq_square)
  finally show ?thesis using r by (simp add: comp_def k_def)
qed

text \<open>
  Evaluation of the one-qubit instance.
\<close>

lemma Arg_one: "Arg 1 = 0"
  by (rule cis_Arg_unique) (simp_all add: sgn_eq)

lemma l2norm_10 [simp]: "l2norm [1, 0] = 1"
  by (simp add: l2norm_def)

lemma l2norm_01 [simp]: "l2norm [0, 1] = 1"
  by (simp add: l2norm_def)

lemmas ex_defs = ex_env_def ex_hhl_def HHL_def ex_eigs_def ex_init_state_def ex_reciprocal_def
  empty_ret_def

lemmas np_defs = vec_div_def np_dot_def vdot_def mat_dot_def np_mul_def angle_mean_def
  np_scale_def

lemmas run_defs = run_def state_tomography_def statevector_simulation_def construct_circuit_def
  hhl_results_def circuit_extend_def add_new_def add_register_def measure_op_def
  success_probability_def py_index_def tomo_postselect_def postselect_item_def
  postselect_counts_def filt_labels_def dict_of_pairs_def marginal_counts_def count_keys_def
  rgx_of_def py_int_char_def is_digit_def py_slice_to_def total_def outcome_ann_def lookup_def
  truthy_def tomo_vec_def

lemma Inr_projr: "\<not> isl x \<Longrightarrow> x = Inr (projr x)"
  by (cases x) simp_all

lemma ex_hhl_results:
  "hhl_results (ex_env sv rho) (ex_hhl [1, 0]) (Vec [1, 0]) =
     Inr ((ex_hhl [1, 0])\<lparr>ret := (ret (ex_hhl [1, 0]))\<lparr>output_hhl := Some (Vec [1, 0]),
           fidelity_hhl_to_classical := Some (Fin 1),
           solution_hhl := Some (Vec [1, 0])\<rparr>\<rparr>)"
  by (simp add: hhl_results_def ex_defs np_defs Arg_one Arg_zero Let_def)

text \<open>
  Claim C6. Let \<open>x\<close> be the classical solution of the system, not the zero vector. For
  every reconstructed vector that is \<open>x / \<parallel>x\<parallel>\<close> times a global phase factor
  \<open>cis \<theta>\<close>, the fidelity that \<^verbatim>\<open>_hhl_results\<close> stores, the squared modulus of the
  product of the normalised classical solution with the conjugate of the reconstructed
  vector, is 1. (Exact arithmetic stands for the floating-point numbers, so the tolerance
  of the claim is 0 here.)
\<close>

theorem fidelity_of_phased_solution:
  assumes solve: "linalg_solve env (matrix s) (vector s) = Inr x"
    and nz: "l2norm x \<noteq> 0"
    and run: "hhl_results env s (Vec (map (\<lambda>t. cis \<theta> * (t / complex_of_real (l2norm x))) x)) = Inr s'"
  shows "fidelity_hhl_to_classical (ret s') = Some (Fin 1)"
proof -
  let ?vec = "map (\<lambda>t. cis \<theta> * (t / complex_of_real (l2norm x))) x"
  from hhl_results_Inr [OF run] solve obtain d where
    d: "np_dot (vec_div x (complex_of_real (l2norm x))) (np_conj (Vec ?vec)) = Inr d"
    and fid: "fidelity_hhl_to_classical (ret s') = Some (np_abs_sq d)"
    by auto
  have "vec_div x (complex_of_real (l2norm x)) = Vec (map (\<lambda>t. t / complex_of_real (l2norm x)) x)"
    using nz by (simp add: vec_div_def)
  with d have "d = Fin (cnj (cis \<theta>))"
    using fidelity_phase [OF nz, of \<theta>] by (simp add: np_dot_def)
  with fid show ?thesis by simp
qed

theorem fidelity_of_phased_solution_witness:
  "\<not> isl (hhl_results (ex_env True []) (ex_hhl [1, 0]) (Vec [1, 0]))
   \<and> fidelity_hhl_to_classical
       (ret (projr (hhl_results (ex_env True []) (ex_hhl [1, 0]) (Vec [1, 0])))) = Some (Fin 1)"
  using fidelity_of_phased_solution [of "ex_env True []" "ex_hhl [1, 0]" "[1, 0]" 0
      "projr (hhl_results (ex_env True []) (ex_hhl [1, 0]) (Vec [1, 0]))"]
    ex_hhl_results [of True "[]"]
  by (simp add: ex_env_def ex_hhl_def HHL_def)

lemma np_mul_Vec: "np_mul b (Vec ys) = Inr p \<Longrightarrow> \<exists>zs. p = Vec zs"
  by (auto simp: np_mul_def split: if_splits)

lemma angle_mean_Vec: "0 < n \<Longrightarrow> angle_mean (Vec zs) n = Inr f2 \<Longrightarrow> \<exists>ph. f2 = Fin ph"
  by (auto simp: angle_mean_def split: if_splits)

lemma cmod_exp_phase: "cmod (exp (- \<i> * complex_of_real ph)) = 1"
  by (simp add: norm_exp_eq_Re)

text \<open>
  Claim C7. For every reconstructed vector \<open>v\<close> with \<open>A \<cdot> v\<close> not zero, and a register
  of at least one qubit (the phase correction divides by its size), the solution that
  \<^verbatim>\<open>_hhl_results\<close> stores, \<open>f1 \<cdot> v \<cdot> exp (- \<i> \<cdot> f2)\<close> with
  \<open>f1 = \<parallel>b\<parallel> / \<parallel>A \<cdot> v\<parallel>\<close> and \<open>f2\<close> the sum of the angles over the size of
  the register, is a finite vector whose image under \<open>A\<close> has the norm of \<open>b\<close>.
\<close>

theorem rescaled_solution_norm:
  assumes run: "hhl_results env s (Vec v) = Inr s'"
    and av: "mat_dot (matrix s) (Vec v) = Inr (Vec t)"
    and nz: "l2norm t \<noteq> 0"
    and nq: "0 < num_q s"
  shows "\<exists>sol t'. solution_hhl (ret s') = Some (Vec sol)
           \<and> mat_dot (matrix s) (Vec sol) = Inr (Vec t')
           \<and> l2norm t' = l2norm (vector s)"
proof -
  from hhl_results_Inr [OF run] av obtain p f2 where
    p: "np_mul (vector s) (np_conj (Vec t)) = Inr p"
    and f2: "angle_mean p (num_q s) = Inr f2"
    and sol: "solution_hhl (ret s') =
        Some (np_scale (np_rdiv (l2norm (vector s)) (np_norm (Vec t))) f2 (Vec v))"
    by auto
  from p have "np_mul (vector s) (Vec (map cnj t)) = Inr p" by simp
  from np_mul_Vec [OF this] obtain zs where "p = Vec zs" by blast
  with f2 nq obtain ph where ph: "f2 = Fin ph" using angle_mean_Vec by blast
  define a where "a = l2norm (vector s) / l2norm t"
  define e where "e = exp (- \<i> * complex_of_real ph)"
  let ?sol = "map (\<lambda>x. complex_of_real a * x * e) v"
  have s1: "solution_hhl (ret s') = Some (Vec ?sol)"
    using sol ph nz by (simp add: np_scale_def a_def e_def)
  from av have shape: "list_all (\<lambda>r. length r = length v) (matrix s)"
    and t: "t = map (\<lambda>r. vdot r v) (matrix s)"
    by (auto simp: mat_dot_def split: if_splits)
  have t': "mat_dot (matrix s) (Vec ?sol)
      = Inr (Vec (map (\<lambda>y. (complex_of_real a * e) * y) t))"
    using shape by (simp add: mat_dot_def t vdot_scale_right comp_def)
  have "0 \<le> a" unfolding a_def by (simp add: l2norm_nonneg)
  then have c: "cmod (complex_of_real a * e) = a"
    by (simp add: norm_mult e_def cmod_exp_phase)
  have "l2norm (map (\<lambda>y. (complex_of_real a * e) * y) t) = cmod (complex_of_real a * e) * l2norm t"
    by (rule l2norm_scale)
  also have "\<dots> = a * l2norm t" by (simp only: c)
  also have "\<dots> = l2norm (vector s)" using nz by (simp add: a_def)
  finally have "l2norm (map (\<lambda>y. (complex_of_real a * e) * y) t) = l2norm (vector s)" .
  with s1 t' show ?thesis by blast
qed

theorem rescaled_solution_norm_witness:
  "\<exists>sol t'. solution_hhl
       (ret (projr (hhl_results (ex_env True []) (ex_hhl [1, 0]) (Vec [1, 0])))) = Some (Vec sol)
     \<and> mat_dot [[1, 0], [0, 1]] (Vec sol) = Inr (Vec t') \<and> l2norm t' = 1"
  using rescaled_solution_norm [of "ex_env True []" "ex_hhl [1, 0]" "[1, 0]"
      "projr (hhl_results (ex_env True []) (ex_hhl [1, 0]) (Vec [1, 0]))" "[1, 0]"]
    ex_hhl_results [of True "[]"]
  by (simp add: ex_hhl_def HHL_def mat_dot_def vdot_def)

subsection \<open>The statevector path\<close>

lemma ex_statevector_simulation:
  "\<not> isl (statevector_simulation (ex_env True []) (construct_circuit (ex_env True []) False (ex_hhl [1, 0])))"
  by (simp add: run_defs ex_defs np_defs Arg_one Arg_zero Let_def)

text \<open>
  Claim C8. In the statevector path, for every amplitude vector the backend returns, with
  \<open>v\<close> the vector that the reciprocal component's \<^verbatim>\<open>sv_to_resvec\<close> extracts from it:
  the stored \<^verbatim>\<open>probability_result\<close> is the product of \<open>v\<close> with its conjugate, which
  is the square of its norm, and the stored \<^verbatim>\<open>output_hhl\<close> is \<open>v\<close> divided by its
  norm, entry by entry when the norm is not zero.
\<close>

theorem statevector_extraction:
  assumes run: "statevector_simulation env s = Inr s'"
    and qc: "circuit s = Some qc"
    and v: "v = sv_to_resvec (reciprocal s) (get_statevector env qc) (num_q s)"
  shows "probability_result (ret s') = Some (ProbScalar (vdot v (map cnj v)))
       \<and> vdot v (map cnj v) = complex_of_real ((l2norm v)\<^sup>2)
       \<and> output_hhl (ret s') = Some (vec_div v (complex_of_real (l2norm v)))
       \<and> (l2norm v \<noteq> 0 \<longrightarrow>
            output_hhl (ret s') = Some (Vec (map (\<lambda>z. z / complex_of_real (l2norm v)) v)))"
proof -
  let ?s1 = "s\<lparr>ret := (ret s)\<lparr>probability_result := Some (ProbScalar (vdot v (map cnj v)))\<rparr>\<rparr>"
  from run qc v have "hhl_results env ?s1 (vec_div v (complex_of_real (l2norm v))) = Inr s'"
    by (simp add: statevector_simulation_def Let_def)
  from hhl_results_Inr [OF this]
  have "probability_result (ret s') = Some (ProbScalar (vdot v (map cnj v)))"
    and "output_hhl (ret s') = Some (vec_div v (complex_of_real (l2norm v)))"
    by auto
  then show ?thesis
    by (simp add: vdot_cnj_self vec_div_def)
qed

theorem statevector_extraction_witness:
  "probability_result (ret (projr (statevector_simulation (ex_env True [])
       (construct_circuit (ex_env True []) False (ex_hhl [1, 0]))))) = Some (ProbScalar 1)
   \<and> output_hhl (ret (projr (statevector_simulation (ex_env True [])
       (construct_circuit (ex_env True []) False (ex_hhl [1, 0]))))) = Some (Vec [1, 0])"
  using statevector_extraction [of "ex_env True []"
      "construct_circuit (ex_env True []) False (ex_hhl [1, 0])"
      "projr (statevector_simulation (ex_env True [])
         (construct_circuit (ex_env True []) False (ex_hhl [1, 0])))"
      "the (circuit (construct_circuit (ex_env True []) False (ex_hhl [1, 0])))"
      "[1, 0]"]
    Inr_projr [OF ex_statevector_simulation]
  by (simp add: construct_circuit_def ex_defs Let_def vdot_def vec_div_def)

subsection \<open>The two paths of a run\<close>

lemma statevector_simulation_frame:
  assumes "statevector_simulation env s = Inr s'"
  shows "matrix s' = matrix s \<and> vector s' = vector s \<and> circuit s' = circuit s
       \<and> success_bit s' = success_bit s
       \<and> (\<exists>p. probability_result (ret s') = Some (ProbScalar p))"
proof (cases "circuit s")
  case None
  with assms show ?thesis by (simp add: statevector_simulation_def)
next
  case (Some qc)
  with assms obtain s1 vec where "hhl_results env s1 vec = Inr s'"
    and "matrix s1 = matrix s" "vector s1 = vector s" "circuit s1 = circuit s"
    and "success_bit s1 = success_bit s"
    and "\<exists>p. probability_result (ret s1) = Some (ProbScalar p)"
    by (simp add: statevector_simulation_def Let_def)
  with hhl_results_frame [of env s1 vec s'] show ?thesis by simp
qed

lemma state_tomography_frame:
  assumes "state_tomography env s = Inr s'"
  shows "matrix s' = matrix s \<and> vector s' = vector s \<and> success_bit s' = success_bit s
       \<and> (\<exists>qc. circuit s = Some qc
             \<and> circuit s' = Some (add_register qc (ClassicalRegister (num_q s) (tomo_creg_name env))))
       \<and> (\<exists>ps. probability_result (ret s') = Some (ProbList ps))"
proof (cases "circuit s")
  case None
  with assms show ?thesis by (simp add: state_tomography_def)
next
  case (Some qc)
  let ?qc = "add_register qc (ClassicalRegister (num_q s) (tomo_creg_name env))"
  from assms Some obtain ps vec where
    "hhl_results env (s\<lparr>circuit := Some ?qc,
        ret := (ret s)\<lparr>probability_result := Some (ProbList ps)\<rparr>\<rparr>) vec = Inr s'"
    by (auto simp: state_tomography_def Let_def ebind_Inr_iff)
  from hhl_results_frame [OF this] Some show ?thesis by simp
qed

lemma construct_circuit_frame:
  "matrix (construct_circuit env m s) = matrix s \<and> vector (construct_circuit env m s) = vector s
   \<and> num_q (construct_circuit env m s) = num_q s
   \<and> success_bit (construct_circuit env m s)
       = (if m then Some (ClassicalRegister 1 (success_creg_name env)) else success_bit s)"
  by (simp add: construct_circuit_def Let_def)

lemma run_Inr:
  assumes "run env s = Inr s'"
  shows "\<exists>s1. (if is_statevector env
               then statevector_simulation env (construct_circuit env False s)
               else state_tomography env (construct_circuit env True s)) = Inr s1
       \<and> matrix s' = matrix s1 \<and> vector s' = vector s1 \<and> circuit s' = circuit s1
       \<and> success_bit s' = success_bit s1
       \<and> probability_result (ret s') = probability_result (ret s1)
       \<and> input_matrix (ret s') = Some (matrix s1) \<and> input_vector (ret s') = Some (vector s1)"
  using assms unfolding run_def
  by (auto simp: ebind_Inr_iff split: option.splits)

lemma ex_run_sv: "\<not> isl (run (ex_env True []) (ex_hhl [1, 0]))"
  by (simp add: run_defs ex_defs np_defs Arg_one Arg_zero Let_def)

lemma ex_run_tomo: "\<not> isl (run (ex_env False [[1, 0], [0, 0]]) (ex_hhl [1, 0]))"
  by (simp add: run_defs ex_defs np_defs Arg_one Arg_zero Let_def)

text \<open>
  Claim C9. A run that returns has taken exactly the path that the backend's flag
  \<^verbatim>\<open>is_statevector\<close> selects. With the flag set, the circuit held afterwards is the one
  built without measurement, the success bit is untouched and the recorded probability is
  the scalar of the statevector path. With the flag unset, the circuit held afterwards is
  the one built with measurement plus the classical register of the tomography, the success
  bit is bound to a classical register of one bit, and the recorded probabilities are the
  list of the tomography path. The circuit built with measurement is the circuit built
  without it, with that one-bit register added and a measurement of the success ancilla
  into it appended.
\<close>

theorem run_selects_one_path:
  assumes run: "run env s = Inr s'"
  shows "(is_statevector env \<longrightarrow>
            circuit s' = circuit (construct_circuit env False s)
          \<and> success_bit s' = success_bit s
          \<and> (\<exists>p. probability_result (ret s') = Some (ProbScalar p)))
       \<and> (\<not> is_statevector env \<longrightarrow>
            (\<exists>qc. circuit (construct_circuit env True s) = Some qc
               \<and> circuit s' = Some (add_register qc
                                     (ClassicalRegister (num_q s) (tomo_creg_name env))))
          \<and> success_bit s' = Some (ClassicalRegister 1 (success_creg_name env))
          \<and> (\<exists>ps. probability_result (ret s') = Some (ProbList ps)))
       \<and> (\<exists>qc. circuit (construct_circuit env False s) = Some qc
             \<and> circuit (construct_circuit env True s)
                 = Some (measure_op (add_register qc (ClassicalRegister 1 (success_creg_name env)))
                           (reci_anc (reciprocal s))
                           (ClassicalRegister 1 (success_creg_name env))))"
proof (intro conjI impI)
  assume sv: "is_statevector env"
  from run_Inr [OF run] sv obtain s1 where
    s1: "statevector_simulation env (construct_circuit env False s) = Inr s1"
    and eq: "circuit s' = circuit s1" "success_bit s' = success_bit s1"
      "probability_result (ret s') = probability_result (ret s1)"
    by auto
  from statevector_simulation_frame [OF s1] eq construct_circuit_frame [of env False s]
  show "circuit s' = circuit (construct_circuit env False s)"
    and "success_bit s' = success_bit s"
    and "\<exists>p. probability_result (ret s') = Some (ProbScalar p)"
    by simp_all
next
  assume tm: "\<not> is_statevector env"
  from run_Inr [OF run] tm obtain s1 where
    s1: "state_tomography env (construct_circuit env True s) = Inr s1"
    and eq: "circuit s' = circuit s1" "success_bit s' = success_bit s1"
      "probability_result (ret s') = probability_result (ret s1)"
    by auto
  from state_tomography_frame [OF s1] eq construct_circuit_frame [of env True s]
  show "\<exists>qc. circuit (construct_circuit env True s) = Some qc
          \<and> circuit s' = Some (add_register qc (ClassicalRegister (num_q s) (tomo_creg_name env)))"
    and "success_bit s' = Some (ClassicalRegister 1 (success_creg_name env))"
    and "\<exists>ps. probability_result (ret s') = Some (ProbList ps)"
    by simp_all
next
  show "\<exists>qc. circuit (construct_circuit env False s) = Some qc
          \<and> circuit (construct_circuit env True s)
              = Some (measure_op (add_register qc (ClassicalRegister 1 (success_creg_name env)))
                        (reci_anc (reciprocal s))
                        (ClassicalRegister 1 (success_creg_name env)))"
    by (simp add: construct_circuit_def Let_def)
qed

theorem run_selects_one_path_witness:
  "success_bit (projr (run (ex_env True []) (ex_hhl [1, 0]))) = None
   \<and> success_bit (projr (run (ex_env False [[1, 0], [0, 0]]) (ex_hhl [1, 0])))
       = Some (ClassicalRegister 1 ''c0'')
   \<and> (\<exists>p. probability_result (ret (projr (run (ex_env True []) (ex_hhl [1, 0]))))
            = Some (ProbScalar p))
   \<and> (\<exists>ps. probability_result (ret (projr (run (ex_env False [[1, 0], [0, 0]]) (ex_hhl [1, 0]))))
            = Some (ProbList ps))"
  using run_selects_one_path [of "ex_env True []" "ex_hhl [1, 0]"
      "projr (run (ex_env True []) (ex_hhl [1, 0]))"]
    run_selects_one_path [of "ex_env False [[1, 0], [0, 0]]" "ex_hhl [1, 0]"
      "projr (run (ex_env False [[1, 0], [0, 0]]) (ex_hhl [1, 0]))"]
    Inr_projr [OF ex_run_sv] Inr_projr [OF ex_run_tomo]
  by (simp add: ex_env_def ex_hhl_def HHL_def)

text \<open>
  Claim C10. For every run that returns, on an object made by the constructor from a
  matrix \<open>m\<close> and a vector \<open>v\<close>: the matrix and the vector that the object holds afterwards
  are \<open>m\<close> and \<open>v\<close>, and so are the entries \<^verbatim>\<open>input_matrix\<close> and
  \<^verbatim>\<open>input_vector\<close> of the returned record.
\<close>

theorem run_preserves_inputs:
  assumes run: "run env (HHL m v e i r nq na) = Inr s'"
  shows "matrix s' = m \<and> vector s' = v
       \<and> input_matrix (ret s') = Some m \<and> input_vector (ret s') = Some v"
proof -
  let ?s = "HHL m v e i r nq na"
  have init: "matrix ?s = m" "vector ?s = v" by (simp_all add: HHL_def)
  from run_Inr [OF run] obtain s1 where
    path: "(if is_statevector env
            then statevector_simulation env (construct_circuit env False ?s)
            else state_tomography env (construct_circuit env True ?s)) = Inr s1"
    and eq: "matrix s' = matrix s1" "vector s' = vector s1"
      "input_matrix (ret s') = Some (matrix s1)" "input_vector (ret s') = Some (vector s1)"
    by blast
  have "matrix s1 = m \<and> vector s1 = v"
  proof (cases "is_statevector env")
    case True
    with path have "statevector_simulation env (construct_circuit env False ?s) = Inr s1" by simp
    from statevector_simulation_frame [OF this] construct_circuit_frame [of env False ?s] init
    show ?thesis by simp
  next
    case False
    with path have "state_tomography env (construct_circuit env True ?s) = Inr s1" by simp
    from state_tomography_frame [OF this] construct_circuit_frame [of env True ?s] init
    show ?thesis by simp
  qed
  with eq show ?thesis by simp
qed

theorem run_preserves_inputs_witness:
  "matrix (projr (run (ex_env True []) (ex_hhl [1, 0]))) = [[1, 0], [0, 1]]
   \<and> input_vector (ret (projr (run (ex_env False [[1, 0], [0, 0]]) (ex_hhl [1, 0]))))
       = Some [1, 0]"
  using run_preserves_inputs [of "ex_env True []" "[[1, 0], [0, 1]]" "[1, 0]" ex_eigs
      ex_init_state ex_reciprocal 1 2 "projr (run (ex_env True []) (ex_hhl [1, 0]))"]
    run_preserves_inputs [of "ex_env False [[1, 0], [0, 0]]" "[[1, 0], [0, 1]]" "[1, 0]" ex_eigs
      ex_init_state ex_reciprocal 1 2
      "projr (run (ex_env False [[1, 0], [0, 0]]) (ex_hhl [1, 0]))"]
    Inr_projr [OF ex_run_sv] Inr_projr [OF ex_run_tomo]
  by (simp add: ex_hhl_def)

subsection \<open>The vector reconstructed by the tomography path\<close>

lemma csqrt_quarter: "csqrt (1 / 4) = 1 / 2"
proof -
  have "csqrt (complex_of_real ((1 / 2)\<^sup>2)) = complex_of_real (1 / 2)"
    by (subst csqrt_of_real_nonneg) (simp_all add: real_sqrt_divide)
  then show ?thesis by (simp add: power2_eq_square)
qed

lemma l2norm_half: "l2norm [1 / 2, 0] = 1 / 2"
  by (simp add: l2norm_def real_sqrt_divide norm_divide power_divide)

text \<open>
  Claim C2. Line 256 takes the first column of the fitted matrix over the square root of
  its first entry, and line 257 hands this vector to \<^verbatim>\<open>_hhl_results\<close> as it is: unlike
  line 220 of the statevector path, nothing divides it by its norm. For the fitted matrix
  with the diagonal \<open>1/4, 3/4\<close> the vector is \<open>(1/2, 0)\<close>, of norm \<open>1/2\<close>; it is
  parallel to the classical solution \<open>(1, 0)\<close>, and the stored fidelity is \<open>1/4\<close>, where
  the statevector path stores 1 for the same direction.
\<close>

theorem tomography_vector_not_normalized:
  "tomo_vec [[1 / 4, 0], [0, 3 / 4]] = Inr (Vec [1 / 2, 0])
   \<and> l2norm [1 / 2, 0] = 1 / 2
   \<and> output_hhl (ret (projr (run (ex_env False [[1 / 4, 0], [0, 3 / 4]]) (ex_hhl [1, 0]))))
       = Some (Vec [1 / 2, 0])
   \<and> fidelity_hhl_to_classical
        (ret (projr (run (ex_env False [[1 / 4, 0], [0, 3 / 4]]) (ex_hhl [1, 0]))))
       = Some (Fin (1 / 4))
   \<and> fidelity_hhl_to_classical (ret (projr (run (ex_env True []) (ex_hhl [1, 0]))))
       = Some (Fin 1)"
  by (simp add: run_defs ex_defs np_defs Arg_one Arg_zero Let_def csqrt_quarter l2norm_half
      norm_divide power_divide)

lemma ex_hhl_results_nan:
  "\<not> isl (hhl_results (ex_env False [[0, 0], [0, 1]]) (ex_hhl [0, 1]) (NanVec 2))"
  by (simp add: hhl_results_def ex_defs np_defs Let_def)

text \<open>
  Claim C5, as amended. The claim as stated fails: nothing in lines 255 to 257 tests the
  first entry of the fitted matrix, and numpy's division by zero raises no error. What
  holds: when that entry is zero, in a fitted matrix that has a first entry, the
  reconstruction returns a vector of the same length with nan or inf entries and hands it
  to \<^verbatim>\<open>_hhl_results\<close>; and whenever that step returns, the stored output and solution
  are such vectors and the stored fidelity is nan.
\<close>

theorem zero_reference_entry_propagates:
  assumes "rho \<noteq> []" and "[] \<notin> set rho" and "hd (hd rho) = 0"
  shows "tomo_vec rho = Inr (NanVec (length rho))
       \<and> (hhl_results env s (NanVec (length rho)) = Inr s' \<longrightarrow>
            output_hhl (ret s') = Some (NanVec (length rho))
          \<and> fidelity_hhl_to_classical (ret s') = Some NonFin
          \<and> solution_hhl (ret s') = Some (NanVec (length rho)))"
proof (intro conjI impI)
  show "tomo_vec rho = Inr (NanVec (length rho))"
    using assms by (simp add: tomo_vec_def vec_div_def)
next
  assume r: "hhl_results env s (NanVec (length rho)) = Inr s'"
  from hhl_results_Inr [OF r] obtain x d tmp f2 where
    d: "np_dot (vec_div x (complex_of_real (l2norm x))) (np_conj (NanVec (length rho))) = Inr d"
    and s': "s' = s\<lparr>ret := (ret s)\<lparr>output_hhl := Some (NanVec (length rho)),
                fidelity_hhl_to_classical := Some (np_abs_sq d),
                solution_hhl := Some (np_scale (np_rdiv (l2norm (vector s)) (np_norm tmp)) f2
                                       (NanVec (length rho)))\<rparr>\<rparr>"
    by blast
  from d have "d = NonFin"
    by (auto simp: np_dot_def vec_div_def split: if_splits)
  with s' show "output_hhl (ret s') = Some (NanVec (length rho))"
    and "fidelity_hhl_to_classical (ret s') = Some NonFin"
    and "solution_hhl (ret s') = Some (NanVec (length rho))"
    by (simp_all add: np_scale_def)
qed

theorem zero_reference_entry_propagates_witness:
  "tomo_vec [[0, 0], [0, 1]] = Inr (NanVec 2)
   \<and> \<not> isl (hhl_results (ex_env False [[0, 0], [0, 1]]) (ex_hhl [0, 1]) (NanVec 2))
   \<and> fidelity_hhl_to_classical
       (ret (projr (hhl_results (ex_env False [[0, 0], [0, 1]]) (ex_hhl [0, 1]) (NanVec 2))))
       = Some NonFin"
proof -
  let ?r = "hhl_results (ex_env False [[0, 0], [0, 1]]) (ex_hhl [0, 1]) (NanVec 2)"
  have a: "\<not> isl ?r" by (rule ex_hhl_results_nan)
  have len: "length [[0, 0], [0, 1 :: complex]] = 2" by simp
  have b: "?r = Inr (projr ?r)" using a by (rule Inr_projr)
  have "tomo_vec [[0, 0], [0, 1]] = Inr (NanVec 2)
      \<and> fidelity_hhl_to_classical (ret (projr ?r)) = Some NonFin"
    using zero_reference_entry_propagates [of "[[0, 0], [0, 1]]"
        "ex_env False [[0, 0], [0, 1]]" "ex_hhl [0, 1]" "projr ?r", unfolded len] b
    by simp
  with a show ?thesis by simp
qed

text \<open>
  The fitted matrix of the basis state \<open>|1\<rangle>\<close>, the solution of the identity system
  with the right-hand side \<open>(0, 1)\<close>: its first entry is zero, and the run returns with a
  non-finite output.
\<close>

theorem zero_reference_entry_counterexample:
  "hd (hd [[0, 0], [0, 1 :: complex]]) = 0
   \<and> tomo_vec [[0, 0], [0, 1]] = Inr (NanVec 2)
   \<and> \<not> isl (run (ex_env False [[0, 0], [0, 1]]) (ex_hhl [0, 1]))
   \<and> output_hhl (ret (projr (run (ex_env False [[0, 0], [0, 1]]) (ex_hhl [0, 1]))))
       = Some (NanVec 2)"
  by (simp add: run_defs ex_defs np_defs Let_def)

end
